theory Spec2Isabelle
  imports Main
begin

section \<open>The fragment of C the two headers are written in\<close>

text \<open>
  The repository is two header files: \<^verbatim>\<open>Sources/CLibUSB/LibUSBBridge.h\<close> and
  \<^verbatim>\<open>Modules/LibUSB/Sources/CLibUSB/shim.h\<close>. A header is a sequence of preprocessor
  directives and declarations; each of them is modelled as a function on the state of
  the translation unit being compiled: the macros defined so far and the declarations
  seen so far. A directive either fails (\<^verbatim>\<open>#error\<close>) or returns the next state.
\<close>

subsection \<open>Types and declarations\<close>

datatype ctype =
    Void
  | Signed_int
  | Unsigned_int
  | Unsigned_char
  | Named string
  | Struct string
  | Pointer ctype

type_synonym param = "ctype \<times> string"

datatype decl =
    Typedef ctype string
  | Struct_definition string "param list"
  | Prototype ctype string "param list"
  | System_header string

text \<open>
  \<open>Named n\<close> is a use of the typedef name \<open>n\<close> (\<^verbatim>\<open>uint16_t\<close>, \<^verbatim>\<open>libusb_context\<close>);
  \<open>Struct tag\<close> is the type \<^verbatim>\<open>struct tag\<close>. \<open>Typedef (Struct tag) n\<close> is
  \<^verbatim>\<open>typedef struct tag n;\<close>, which completes nothing: \<^verbatim>\<open>struct tag\<close> is complete only
  after a \<open>Struct_definition tag\<close>. \<open>System_header h\<close> stands for the text of the header
  \<^verbatim>\<open><h>\<close> at the point of its inclusion; system headers are not part of the repository
  and are not expanded.
\<close>

subsection \<open>Macros and their values\<close>

datatype token = Minus | Number string

text \<open>
  The replacement list of an object-like macro, token by token, each number spelled as
  in the source. An integer constant is hexadecimal after \<^verbatim>\<open>0x\<close>, octal after \<^verbatim>\<open>0\<close> and
  decimal otherwise.
\<close>

definition digit_of :: "char \<Rightarrow> nat option" where
  "digit_of c =
     (let k = (of_char c :: nat) in
      if 48 \<le> k \<and> k \<le> 57 then Some (k - 48)
      else if 97 \<le> k \<and> k \<le> 102 then Some (k - 87)
      else if 65 \<le> k \<and> k \<le> 70 then Some (k - 55)
      else None)"

fun digits_value :: "nat \<Rightarrow> string \<Rightarrow> nat \<Rightarrow> nat option" where
  "digits_value b [] acc = Some acc"
| "digits_value b (c # cs) acc =
     (case digit_of c of
        None \<Rightarrow> None
      | Some d \<Rightarrow> if d < b then digits_value b cs (acc * b + d) else None)"

fun integer_constant :: "string \<Rightarrow> nat option" where
  "integer_constant [] = None"
| "integer_constant (c # cs) =
     (if c = CHR ''0'' then
        (case cs of
           [] \<Rightarrow> Some 0
         | d # ds \<Rightarrow>
             if d = CHR ''x'' \<or> d = CHR ''X''
             then (if ds = [] then None else digits_value 16 ds 0)
             else digits_value 8 cs 0)
      else digits_value 10 (c # cs) 0)"

fun constant_expression :: "token list \<Rightarrow> int option" where
  "constant_expression [Number n] = map_option int (integer_constant n)"
| "constant_expression [Minus, Number n] = map_option (\<lambda>v. - int v) (integer_constant n)"
| "constant_expression _ = None"

subsection \<open>The state of a translation unit\<close>

record pp_state =
  macros :: "(string \<times> token list) list"
  decls :: "decl list"

datatype error = Error_directive string

type_synonym directive = "pp_state \<Rightarrow> error + pp_state"

definition empty_tu :: pp_state where
  "empty_tu = \<lparr>macros = [], decls = []\<rparr>"

text \<open>
  \<open>macros\<close> lists the \<^verbatim>\<open>#define\<close>s in the order they were processed; the body of a
  macro is that of its latest definition.
\<close>

definition macro_body :: "pp_state \<Rightarrow> string \<Rightarrow> token list option" where
  "macro_body s n = map_of (rev (macros s)) n"

definition defined :: "pp_state \<Rightarrow> string \<Rightarrow> bool" where
  "defined s n = (macro_body s n \<noteq> None)"

definition macro_value :: "pp_state \<Rightarrow> string \<Rightarrow> int option" where
  "macro_value s n =
     (case macro_body s n of None \<Rightarrow> None | Some ts \<Rightarrow> constant_expression ts)"

definition macro_names :: "pp_state \<Rightarrow> string list" where
  "macro_names s = map fst (macros s)"

subsection \<open>Directives\<close>

definition hash_define :: "string \<Rightarrow> token list \<Rightarrow> directive" where
  "hash_define n ts s = Inr (s\<lparr>macros := macros s @ [(n, ts)]\<rparr>)"

definition declare_c :: "decl \<Rightarrow> directive" where
  "declare_c d s = Inr (s\<lparr>decls := decls s @ [d]\<rparr>)"

definition include_sys :: "string \<Rightarrow> directive" where
  "include_sys h = declare_c (System_header h)"

definition error_directive :: "string \<Rightarrow> directive" where
  "error_directive msg s = Inl (Error_directive msg)"

definition ifndef :: "string \<Rightarrow> directive \<Rightarrow> directive" where
  "ifndef n body s = (if defined s n then Inr s else body s)"

definition if_elif_else ::
  "bool \<Rightarrow> directive \<Rightarrow> bool \<Rightarrow> directive \<Rightarrow> directive \<Rightarrow> directive" where
  "if_elif_else c1 d1 c2 d2 d3 s = (if c1 then d1 s else if c2 then d2 s else d3 s)"

fun seq :: "directive list \<Rightarrow> directive" where
  "seq [] s = Inr s"
| "seq (d # ds) s = (case d s of Inl e \<Rightarrow> Inl e | Inr s' \<Rightarrow> seq ds s')"

text \<open>
  Processing stops at the first failing directive. \<open>include_times n h\<close> is a source
  text that includes the header \<open>h\<close> \<open>n\<close> times in a row.
\<close>

definition include_times :: "nat \<Rightarrow> directive \<Rightarrow> directive" where
  "include_times n h = seq (replicate n h)"

section \<open>The headers\<close>

subsection \<open>\<^verbatim>\<open>Modules/LibUSB/Sources/CLibUSB/shim.h\<close>\<close>

text \<open>
  \<open>has_include h\<close> is the value of \<^verbatim>\<open>__has_include(<h>)\<close>: whether the compiler finds
  the header \<open>h\<close> on its search path.
\<close>

definition shim_h :: "(string \<Rightarrow> bool) \<Rightarrow> directive" where
  "shim_h has_include =
     ifndef ''CLibUSB_shim'' (seq [
       hash_define ''CLibUSB_shim'' [],
       if_elif_else
         (has_include ''libusb-1.0/libusb.h'') (include_sys ''libusb-1.0/libusb.h'')
         (has_include ''libusb.h'') (include_sys ''libusb.h'')
         (error_directive ''libusb headers not found'')])"

subsection \<open>\<^verbatim>\<open>Sources/CLibUSB/LibUSBBridge.h\<close>\<close>

definition LibUSBBridge_h :: directive where
  "LibUSBBridge_h =
     ifndef ''LibUSBBridge_h'' (seq [
       hash_define ''LibUSBBridge_h'' [],

       include_sys ''stddef.h'',
       include_sys ''stdint.h'',

       declare_c (Typedef (Struct ''libusb_context'') ''libusb_context''),
       declare_c (Typedef (Struct ''libusb_device'') ''libusb_device''),
       declare_c (Typedef (Struct ''libusb_device_handle'') ''libusb_device_handle''),

       hash_define ''LIBUSB_SUCCESS'' [Number ''0''],
       hash_define ''LIBUSB_ERROR_IO'' [Minus, Number ''1''],
       hash_define ''LIBUSB_ERROR_INVALID_PARAM'' [Minus, Number ''2''],
       hash_define ''LIBUSB_ERROR_ACCESS'' [Minus, Number ''3''],
       hash_define ''LIBUSB_ERROR_NO_DEVICE'' [Minus, Number ''4''],
       hash_define ''LIBUSB_ERROR_NOT_FOUND'' [Minus, Number ''5''],
       hash_define ''LIBUSB_ERROR_BUSY'' [Minus, Number ''6''],
       hash_define ''LIBUSB_ERROR_TIMEOUT'' [Minus, Number ''7''],
       hash_define ''LIBUSB_ERROR_PIPE'' [Minus, Number ''8''],
       hash_define ''LIBUSB_ERROR_INTERRUPTED'' [Minus, Number ''10''],
       hash_define ''LIBUSB_ERROR_NO_MEM'' [Minus, Number ''11''],
       hash_define ''LIBUSB_ERROR_NOT_SUPPORTED'' [Minus, Number ''12''],

       hash_define ''LIBUSB_TRANSFER_TYPE_INTERRUPT'' [Number ''3''],

       hash_define ''LIBUSB_ENDPOINT_IN'' [Number ''0x80''],
       hash_define ''LIBUSB_ENDPOINT_OUT'' [Number ''0x00''],

       declare_c (Prototype Signed_int ''libusb_init''
         [(Pointer (Pointer (Named ''libusb_context'')), ''ctx'')]),
       declare_c (Prototype Void ''libusb_exit''
         [(Pointer (Named ''libusb_context''), ''ctx'')]),

       declare_c (Prototype (Pointer (Named ''libusb_device_handle''))
         ''libusb_open_device_with_vid_pid''
         [(Pointer (Named ''libusb_context''), ''ctx''),
          (Named ''uint16_t'', ''vid''),
          (Named ''uint16_t'', ''pid'')]),
       declare_c (Prototype Void ''libusb_close''
         [(Pointer (Named ''libusb_device_handle''), ''dev_handle'')]),

       declare_c (Prototype Signed_int ''libusb_kernel_driver_active''
         [(Pointer (Named ''libusb_device_handle''), ''dev_handle''),
          (Signed_int, ''interface_number'')]),
       declare_c (Prototype Signed_int ''libusb_detach_kernel_driver''
         [(Pointer (Named ''libusb_device_handle''), ''dev_handle''),
          (Signed_int, ''interface_number'')]),
       declare_c (Prototype Signed_int ''libusb_attach_kernel_driver''
         [(Pointer (Named ''libusb_device_handle''), ''dev_handle''),
          (Signed_int, ''interface_number'')]),

       declare_c (Prototype Signed_int ''libusb_claim_interface''
         [(Pointer (Named ''libusb_device_handle''), ''dev_handle''),
          (Signed_int, ''interface_number'')]),
       declare_c (Prototype Signed_int ''libusb_release_interface''
         [(Pointer (Named ''libusb_device_handle''), ''dev_handle''),
          (Signed_int, ''interface_number'')]),

       declare_c (Prototype Signed_int ''libusb_interrupt_transfer''
         [(Pointer (Named ''libusb_device_handle''), ''dev_handle''),
          (Unsigned_char, ''endpoint''),
          (Pointer Unsigned_char, ''data''),
          (Signed_int, ''length''),
          (Pointer Signed_int, ''actual_length''),
          (Unsigned_int, ''timeout'')]),

       declare_c (Prototype Signed_int ''libusb_reset_device''
         [(Pointer (Named ''libusb_device_handle''), ''dev_handle'')])])"

text \<open>
  The translation unit of a source file that consists of the one line
  \<^verbatim>\<open>#include "LibUSBBridge.h"\<close>. The header has no failing directive
  (lemma \<open>bridge_compiles\<close> below), so the second case never applies.
\<close>

definition bridge_unit :: pp_state where
  "bridge_unit = (case LibUSBBridge_h empty_tu of Inr t \<Rightarrow> t | Inl e \<Rightarrow> empty_tu)"

section \<open>What a translation unit declares\<close>

fun is_prototype :: "decl \<Rightarrow> bool" where
  "is_prototype (Prototype r n ps) = True"
| "is_prototype _ = False"

fun decl_name :: "decl \<Rightarrow> string" where
  "decl_name (Typedef t n) = n"
| "decl_name (Struct_definition tag fs) = tag"
| "decl_name (Prototype r n ps) = n"
| "decl_name (System_header h) = h"


fun params :: "decl \<Rightarrow> param list" where
  "params (Prototype r n ps) = ps"
| "params _ = []"

fun signature_types :: "decl \<Rightarrow> ctype list" where
  "signature_types (Prototype r n ps) = r # map fst ps"
| "signature_types _ = []"

fun typedef_of :: "decl \<Rightarrow> (ctype \<times> string) list" where
  "typedef_of (Typedef t n) = [(t, n)]"
| "typedef_of _ = []"

fun struct_definition_of :: "decl \<Rightarrow> string list" where
  "struct_definition_of (Struct_definition tag fs) = [tag]"
| "struct_definition_of _ = []"

definition prototypes :: "pp_state \<Rightarrow> decl list" where
  "prototypes s = filter is_prototype (decls s)"

definition typedefs :: "pp_state \<Rightarrow> (ctype \<times> string) list" where
  "typedefs s = concat (map typedef_of (decls s))"

definition struct_definitions :: "pp_state \<Rightarrow> string list" where
  "struct_definitions s = concat (map struct_definition_of (decls s))"

text \<open>
  \<open>by_value hs t\<close>: the type \<open>t\<close> is one of the structures \<open>hs\<close> itself, not a pointer
  to it. An object of such a type can only be declared, copied or accessed where the
  structure is complete.
\<close>

fun by_value :: "string list \<Rightarrow> ctype \<Rightarrow> bool" where
  "by_value hs (Named n) = (n \<in> set hs)"
| "by_value hs (Struct tag) = (tag \<in> set hs)"
| "by_value hs _ = False"

text \<open>
  The names the header gives to return codes: \<^verbatim>\<open>LIBUSB_SUCCESS\<close> and the macros
  \<^verbatim>\<open>LIBUSB_ERROR_*\<close>.
\<close>

definition is_error_name :: "string \<Rightarrow> bool" where
  "is_error_name n = (take 13 n = ''LIBUSB_ERROR_'')"

definition error_names :: "pp_state \<Rightarrow> string list" where
  "error_names s = filter is_error_name (macro_names s)"

definition code_names :: "pp_state \<Rightarrow> string list" where
  "code_names s = filter (\<lambda>n. n = ''LIBUSB_SUCCESS'' \<or> is_error_name n) (macro_names s)"

definition negative_code :: "pp_state \<Rightarrow> string \<Rightarrow> bool" where
  "negative_code s n = (case macro_value s n of None \<Rightarrow> False | Some v \<Rightarrow> v < 0)"



section \<open>The outcome of a call\<close>







section \<open>Evaluating the bridge header\<close>

lemmas directive_defs = ifndef_def defined_def macro_body_def hash_define_def declare_c_def
  include_sys_def error_directive_def if_elif_else_def

lemma bridge_compiles: "LibUSBBridge_h empty_tu = Inr bridge_unit"
  by (simp add: bridge_unit_def LibUSBBridge_h_def directive_defs empty_tu_def)

lemma bridge_macros:
  "macros bridge_unit =
     [(''LibUSBBridge_h'', []),
      (''LIBUSB_SUCCESS'', [Number ''0'']),
      (''LIBUSB_ERROR_IO'', [Minus, Number ''1'']),
      (''LIBUSB_ERROR_INVALID_PARAM'', [Minus, Number ''2'']),
      (''LIBUSB_ERROR_ACCESS'', [Minus, Number ''3'']),
      (''LIBUSB_ERROR_NO_DEVICE'', [Minus, Number ''4'']),
      (''LIBUSB_ERROR_NOT_FOUND'', [Minus, Number ''5'']),
      (''LIBUSB_ERROR_BUSY'', [Minus, Number ''6'']),
      (''LIBUSB_ERROR_TIMEOUT'', [Minus, Number ''7'']),
      (''LIBUSB_ERROR_PIPE'', [Minus, Number ''8'']),
      (''LIBUSB_ERROR_INTERRUPTED'', [Minus, Number ''10'']),
      (''LIBUSB_ERROR_NO_MEM'', [Minus, Number ''11'']),
      (''LIBUSB_ERROR_NOT_SUPPORTED'', [Minus, Number ''12'']),
      (''LIBUSB_TRANSFER_TYPE_INTERRUPT'', [Number ''3'']),
      (''LIBUSB_ENDPOINT_IN'', [Number ''0x80'']),
      (''LIBUSB_ENDPOINT_OUT'', [Number ''0x00''])]"
  by (simp add: bridge_unit_def LibUSBBridge_h_def directive_defs empty_tu_def)

lemma bridge_prototypes:
  "prototypes bridge_unit =
     [Prototype Signed_int ''libusb_init''
        [(Pointer (Pointer (Named ''libusb_context'')), ''ctx'')],
      Prototype Void ''libusb_exit''
        [(Pointer (Named ''libusb_context''), ''ctx'')],
      Prototype (Pointer (Named ''libusb_device_handle'')) ''libusb_open_device_with_vid_pid''
        [(Pointer (Named ''libusb_context''), ''ctx''),
         (Named ''uint16_t'', ''vid''),
         (Named ''uint16_t'', ''pid'')],
      Prototype Void ''libusb_close''
        [(Pointer (Named ''libusb_device_handle''), ''dev_handle'')],
      Prototype Signed_int ''libusb_kernel_driver_active''
        [(Pointer (Named ''libusb_device_handle''), ''dev_handle''),
         (Signed_int, ''interface_number'')],
      Prototype Signed_int ''libusb_detach_kernel_driver''
        [(Pointer (Named ''libusb_device_handle''), ''dev_handle''),
         (Signed_int, ''interface_number'')],
      Prototype Signed_int ''libusb_attach_kernel_driver''
        [(Pointer (Named ''libusb_device_handle''), ''dev_handle''),
         (Signed_int, ''interface_number'')],
      Prototype Signed_int ''libusb_claim_interface''
        [(Pointer (Named ''libusb_device_handle''), ''dev_handle''),
         (Signed_int, ''interface_number'')],
      Prototype Signed_int ''libusb_release_interface''
        [(Pointer (Named ''libusb_device_handle''), ''dev_handle''),
         (Signed_int, ''interface_number'')],
      Prototype Signed_int ''libusb_interrupt_transfer''
        [(Pointer (Named ''libusb_device_handle''), ''dev_handle''),
         (Unsigned_char, ''endpoint''),
         (Pointer Unsigned_char, ''data''),
         (Signed_int, ''length''),
         (Pointer Signed_int, ''actual_length''),
         (Unsigned_int, ''timeout'')],
      Prototype Signed_int ''libusb_reset_device''
        [(Pointer (Named ''libusb_device_handle''), ''dev_handle'')]]"
  by (simp add: prototypes_def bridge_unit_def LibUSBBridge_h_def directive_defs empty_tu_def)

lemmas value_defs = macro_value_def macro_body_def bridge_macros digit_of_def

lemma bridge_macro_names:
  "macro_names bridge_unit =
     [''LibUSBBridge_h'', ''LIBUSB_SUCCESS'', ''LIBUSB_ERROR_IO'',
      ''LIBUSB_ERROR_INVALID_PARAM'', ''LIBUSB_ERROR_ACCESS'', ''LIBUSB_ERROR_NO_DEVICE'',
      ''LIBUSB_ERROR_NOT_FOUND'', ''LIBUSB_ERROR_BUSY'', ''LIBUSB_ERROR_TIMEOUT'',
      ''LIBUSB_ERROR_PIPE'', ''LIBUSB_ERROR_INTERRUPTED'', ''LIBUSB_ERROR_NO_MEM'',
      ''LIBUSB_ERROR_NOT_SUPPORTED'', ''LIBUSB_TRANSFER_TYPE_INTERRUPT'',
      ''LIBUSB_ENDPOINT_IN'', ''LIBUSB_ENDPOINT_OUT'']"
  by (simp add: macro_names_def bridge_macros)

lemma bridge_error_names:
  "error_names bridge_unit =
     [''LIBUSB_ERROR_IO'', ''LIBUSB_ERROR_INVALID_PARAM'', ''LIBUSB_ERROR_ACCESS'',
      ''LIBUSB_ERROR_NO_DEVICE'', ''LIBUSB_ERROR_NOT_FOUND'', ''LIBUSB_ERROR_BUSY'',
      ''LIBUSB_ERROR_TIMEOUT'', ''LIBUSB_ERROR_PIPE'', ''LIBUSB_ERROR_INTERRUPTED'',
      ''LIBUSB_ERROR_NO_MEM'', ''LIBUSB_ERROR_NOT_SUPPORTED'']"
  by (simp add: error_names_def bridge_macro_names is_error_name_def)

lemma bridge_code_names:
  "code_names bridge_unit = ''LIBUSB_SUCCESS'' # error_names bridge_unit"
  by (simp add: code_names_def bridge_error_names bridge_macro_names is_error_name_def)

lemma bridge_code_values:
  "map (macro_value bridge_unit) (code_names bridge_unit) =
     map Some [0, - 1, - 2, - 3, - 4, - 5, - 6, - 7, - 8, - 10, - 11, - 12]"
  by (simp add: bridge_code_names bridge_error_names value_defs)

lemma distinct_map_at_most_one:
  "distinct (map f xs) \<Longrightarrow> length (filter (\<lambda>x. f x = v) xs) \<le> 1"
proof (induction xs)
  case Nil
  show ?case by simp
next
  case (Cons x xs)
  show ?case
  proof (cases "f x = v")
    case True
    with Cons.prems have "v \<notin> f ` set xs" by simp
    then have "filter (\<lambda>x. f x = v) xs = []"
      by (auto simp add: filter_empty_conv)
    with True show ?thesis by simp
  next
    case False
    with Cons show ?thesis by simp
  qed
qed







section \<open>Including a header more than once\<close>

lemma bridge_guard: "LibUSBBridge_h s = Inr t \<Longrightarrow> defined t ''LibUSBBridge_h''"
  by (auto simp add: LibUSBBridge_h_def directive_defs split: if_splits)

lemma shim_guard: "shim_h has_include s = Inr t \<Longrightarrow> defined t ''CLibUSB_shim''"
  by (auto simp add: shim_h_def directive_defs split: if_splits)

lemma bridge_stable: "LibUSBBridge_h s = Inr t \<Longrightarrow> LibUSBBridge_h t = Inr t"
  using bridge_guard [of s t] by (simp add: LibUSBBridge_h_def ifndef_def)

lemma shim_stable: "shim_h has_include s = Inr t \<Longrightarrow> shim_h has_include t = Inr t"
  using shim_guard [of has_include s t] by (simp add: shim_h_def ifndef_def)

lemma include_again:
  assumes stable: "\<And>s t. h s = Inr t \<Longrightarrow> h t = Inr t"
  shows "include_times (Suc n) h s = h s"
proof (induction n arbitrary: s)
  case 0
  show ?case by (simp add: include_times_def split: sum.splits)
next
  case (Suc n)
  show ?case
  proof (cases "h s")
    case (Inl e)
    then show ?thesis by (simp add: include_times_def)
  next
    case (Inr t)
    have "include_times (Suc (Suc n)) h s = include_times (Suc n) h t"
      using Inr by (simp add: include_times_def)
    also have "\<dots> = h t" by (rule Suc.IH)
    also have "\<dots> = Inr t" using Inr by (rule stable)
    finally show ?thesis using Inr by simp
  qed
qed

section \<open>The claims\<close>

text \<open>
  Claim C1. The constants of the bridge header should have the values libusb 1.0
  publishes under the same names. Evaluated, the header's macros have the values below.
  Fourteen of them are libusb's; \<^verbatim>\<open>LIBUSB_ERROR_PIPE\<close> is \<open>-8\<close> here, while libusb's
  \<^verbatim>\<open>enum libusb_error\<close> numbers \<^verbatim>\<open>LIBUSB_ERROR_OVERFLOW\<close> \<open>-8\<close> and
  \<^verbatim>\<open>LIBUSB_ERROR_PIPE\<close> \<open>-9\<close>.
\<close>

theorem bridge_constant_values:
  "macro_value bridge_unit ''LIBUSB_SUCCESS'' = Some 0 \<and>
   macro_value bridge_unit ''LIBUSB_ERROR_IO'' = Some (- 1) \<and>
   macro_value bridge_unit ''LIBUSB_ERROR_INVALID_PARAM'' = Some (- 2) \<and>
   macro_value bridge_unit ''LIBUSB_ERROR_ACCESS'' = Some (- 3) \<and>
   macro_value bridge_unit ''LIBUSB_ERROR_NO_DEVICE'' = Some (- 4) \<and>
   macro_value bridge_unit ''LIBUSB_ERROR_NOT_FOUND'' = Some (- 5) \<and>
   macro_value bridge_unit ''LIBUSB_ERROR_BUSY'' = Some (- 6) \<and>
   macro_value bridge_unit ''LIBUSB_ERROR_TIMEOUT'' = Some (- 7) \<and>
   macro_value bridge_unit ''LIBUSB_ERROR_PIPE'' = Some (- 8) \<and>
   macro_value bridge_unit ''LIBUSB_ERROR_INTERRUPTED'' = Some (- 10) \<and>
   macro_value bridge_unit ''LIBUSB_ERROR_NO_MEM'' = Some (- 11) \<and>
   macro_value bridge_unit ''LIBUSB_ERROR_NOT_SUPPORTED'' = Some (- 12) \<and>
   macro_value bridge_unit ''LIBUSB_TRANSFER_TYPE_INTERRUPT'' = Some 3 \<and>
   macro_value bridge_unit ''LIBUSB_ENDPOINT_IN'' = Some 128 \<and>
   macro_value bridge_unit ''LIBUSB_ENDPOINT_OUT'' = Some 0"
  by (simp add: value_defs)




text \<open>
  Claim C3. On its first inclusion the shim includes \<^verbatim>\<open><libusb-1.0/libusb.h>\<close> when
  that header is available; otherwise \<^verbatim>\<open><libusb.h>\<close> when that one is available;
  otherwise compilation fails with the \<^verbatim>\<open>#error\<close> directive.
\<close>

theorem shim_precedence:
  assumes "\<not> defined s ''CLibUSB_shim''"
  shows "(has_include ''libusb-1.0/libusb.h'' \<longrightarrow>
            shim_h has_include s =
              Inr (s\<lparr>macros := macros s @ [(''CLibUSB_shim'', [])],
                     decls := decls s @ [System_header ''libusb-1.0/libusb.h'']\<rparr>)) \<and>
         (\<not> has_include ''libusb-1.0/libusb.h'' \<and> has_include ''libusb.h'' \<longrightarrow>
            shim_h has_include s =
              Inr (s\<lparr>macros := macros s @ [(''CLibUSB_shim'', [])],
                     decls := decls s @ [System_header ''libusb.h'']\<rparr>)) \<and>
         (\<not> has_include ''libusb-1.0/libusb.h'' \<and> \<not> has_include ''libusb.h'' \<longrightarrow>
            shim_h has_include s = Inl (Error_directive ''libusb headers not found''))"
  using assms
  by (simp add: shim_h_def ifndef_def hash_define_def declare_c_def include_sys_def
      error_directive_def if_elif_else_def)

text \<open>
  The three cases of claim C3 in an empty translation unit: both headers available,
  only \<^verbatim>\<open><libusb.h>\<close> available, none available.
\<close>

theorem shim_precedence_witness:
  "\<not> defined empty_tu ''CLibUSB_shim'' \<and>
   shim_h (\<lambda>h. True) empty_tu =
     Inr \<lparr>macros = [(''CLibUSB_shim'', [])],
          decls = [System_header ''libusb-1.0/libusb.h'']\<rparr> \<and>
   shim_h (\<lambda>h. h = ''libusb.h'') empty_tu =
     Inr \<lparr>macros = [(''CLibUSB_shim'', [])], decls = [System_header ''libusb.h'']\<rparr> \<and>
   shim_h (\<lambda>h. False) empty_tu = Inl (Error_directive ''libusb headers not found'')"
proof -
  have fresh: "\<not> defined empty_tu ''CLibUSB_shim''"
    by (simp add: defined_def macro_body_def empty_tu_def)
  from shim_precedence [OF fresh, of "\<lambda>h. True"]
    shim_precedence [OF fresh, of "\<lambda>h. h = ''libusb.h''"]
    shim_precedence [OF fresh, of "\<lambda>h. False"]
  show ?thesis using fresh by (simp add: empty_tu_def)
qed

text \<open>
  Claim C4. The bridge header declares exactly eleven functions: context init and exit,
  device open by VID/PID and close, kernel-driver query, detach and attach, interface
  claim and release, the interrupt transfer and the device reset, with the return and
  parameter types listed (the return type first).
\<close>

theorem bridge_declared_functions:
  "map decl_name (prototypes bridge_unit) =
     [''libusb_init'', ''libusb_exit'',
      ''libusb_open_device_with_vid_pid'', ''libusb_close'',
      ''libusb_kernel_driver_active'', ''libusb_detach_kernel_driver'',
      ''libusb_attach_kernel_driver'',
      ''libusb_claim_interface'', ''libusb_release_interface'',
      ''libusb_interrupt_transfer'',
      ''libusb_reset_device''] \<and>
   map signature_types (prototypes bridge_unit) =
     [[Signed_int, Pointer (Pointer (Named ''libusb_context''))],
      [Void, Pointer (Named ''libusb_context'')],
      [Pointer (Named ''libusb_device_handle''), Pointer (Named ''libusb_context''),
       Named ''uint16_t'', Named ''uint16_t''],
      [Void, Pointer (Named ''libusb_device_handle'')],
      [Signed_int, Pointer (Named ''libusb_device_handle''), Signed_int],
      [Signed_int, Pointer (Named ''libusb_device_handle''), Signed_int],
      [Signed_int, Pointer (Named ''libusb_device_handle''), Signed_int],
      [Signed_int, Pointer (Named ''libusb_device_handle''), Signed_int],
      [Signed_int, Pointer (Named ''libusb_device_handle''), Signed_int],
      [Signed_int, Pointer (Named ''libusb_device_handle''), Unsigned_char,
       Pointer Unsigned_char, Signed_int, Pointer Signed_int, Unsigned_int],
      [Signed_int, Pointer (Named ''libusb_device_handle'')]]"
  by (simp add: bridge_prototypes)

text \<open>
  Claim C5. The macros named \<^verbatim>\<open>LIBUSB_ERROR_*\<close> are exactly eleven, one for each of the
  error kinds I/O, invalid parameter, access denied, no device, not found, busy, timeout,
  pipe, interrupted, no memory and not supported; each has a strictly negative value,
  and the success value is 0.
\<close>

theorem bridge_error_kinds:
  "error_names bridge_unit =
     [''LIBUSB_ERROR_IO'', ''LIBUSB_ERROR_INVALID_PARAM'', ''LIBUSB_ERROR_ACCESS'',
      ''LIBUSB_ERROR_NO_DEVICE'', ''LIBUSB_ERROR_NOT_FOUND'', ''LIBUSB_ERROR_BUSY'',
      ''LIBUSB_ERROR_TIMEOUT'', ''LIBUSB_ERROR_PIPE'', ''LIBUSB_ERROR_INTERRUPTED'',
      ''LIBUSB_ERROR_NO_MEM'', ''LIBUSB_ERROR_NOT_SUPPORTED''] \<and>
   filter (\<lambda>n. \<not> negative_code bridge_unit n) (error_names bridge_unit) = [] \<and>
   macro_value bridge_unit ''LIBUSB_SUCCESS'' = Some 0"
  by (simp add: bridge_error_names negative_code_def value_defs)

text \<open>
  Claim C6. The header declares exactly three handle types, each a typedef of a
  structure that the header never defines, and no declared function takes or returns
  one of them by value: they occur behind pointers only.
\<close>

theorem bridge_opaque_handles:
  "typedefs bridge_unit =
     [(Struct ''libusb_context'', ''libusb_context''),
      (Struct ''libusb_device'', ''libusb_device''),
      (Struct ''libusb_device_handle'', ''libusb_device_handle'')] \<and>
   struct_definitions bridge_unit = [] \<and>
   filter (by_value [''libusb_context'', ''libusb_device'', ''libusb_device_handle''])
     (concat (map signature_types (prototypes bridge_unit))) = []"
proof -
  have td: "typedefs bridge_unit =
     [(Struct ''libusb_context'', ''libusb_context''),
      (Struct ''libusb_device'', ''libusb_device''),
      (Struct ''libusb_device_handle'', ''libusb_device_handle'')]"
    by (simp add: typedefs_def bridge_unit_def LibUSBBridge_h_def directive_defs empty_tu_def)
  have sd: "struct_definitions bridge_unit = []"
    by (simp add: struct_definitions_def bridge_unit_def LibUSBBridge_h_def directive_defs
        empty_tu_def)
  have bv: "filter (by_value [''libusb_context'', ''libusb_device'', ''libusb_device_handle''])
     (concat (map signature_types (prototypes bridge_unit))) = []"
    by (simp add: bridge_prototypes)
  from td sd bv show ?thesis by simp
qed

text \<open>
  Claim C7. The header declares one interrupt-transfer function,
  \<^verbatim>\<open>libusb_interrupt_transfer\<close>, taking the device handle, the endpoint, the data
  buffer, its length, a pointer for the transferred length and an \<^verbatim>\<open>unsigned int\<close>
  timeout; it is the only declared function with a timeout parameter.
\<close>

theorem bridge_interrupt_transfer:
  "filter (\<lambda>p. decl_name p = ''libusb_interrupt_transfer'') (prototypes bridge_unit) =
     [Prototype Signed_int ''libusb_interrupt_transfer''
        [(Pointer (Named ''libusb_device_handle''), ''dev_handle''),
         (Unsigned_char, ''endpoint''),
         (Pointer Unsigned_char, ''data''),
         (Signed_int, ''length''),
         (Pointer Signed_int, ''actual_length''),
         (Unsigned_int, ''timeout'')]] \<and>
   map decl_name
     (filter (\<lambda>p. (Unsigned_int, ''timeout'') \<in> set (params p)) (prototypes bridge_unit)) =
     [''libusb_interrupt_transfer'']"
  by (simp add: bridge_prototypes)

text \<open>
  Claim C8. \<^verbatim>\<open>LIBUSB_SUCCESS\<close> and the eleven \<^verbatim>\<open>LIBUSB_ERROR_*\<close> macros all have a
  value and no two of them have the same one, so a return code \<open>c\<close> is the value of at
  most one of them.
\<close>

theorem bridge_codes_distinct:
  "length (code_names bridge_unit) = 12 \<and>
   None \<notin> set (map (macro_value bridge_unit) (code_names bridge_unit)) \<and>
   distinct (map (macro_value bridge_unit) (code_names bridge_unit)) \<and>
   length (filter (\<lambda>n. macro_value bridge_unit n = Some c) (code_names bridge_unit)) \<le> 1"
proof -
  have len: "length (code_names bridge_unit) = 12"
    by (simp add: bridge_code_names bridge_error_names)
  have some: "None \<notin> set (map (macro_value bridge_unit) (code_names bridge_unit))"
    by (simp add: bridge_code_values)
  have dist: "distinct (map (macro_value bridge_unit) (code_names bridge_unit))"
    by (simp add: bridge_code_values)
  have one: "length (filter (\<lambda>n. macro_value bridge_unit n = Some c) (code_names bridge_unit)) \<le> 1"
    using dist by (rule distinct_map_at_most_one)
  from len some dist one show ?thesis by simp
qed


text \<open>
  Claim C10. Including either header several times in a row gives the translation unit
  that including it once gives, whatever came before. After any number of inclusions of
  the bridge header into an empty translation unit, no macro and no declared name occurs
  twice.
\<close>

theorem include_guards_idempotent:
  "include_times (Suc n) LibUSBBridge_h s = LibUSBBridge_h s \<and>
   include_times (Suc n) (shim_h has_include) s = shim_h has_include s \<and>
   include_times (Suc n) LibUSBBridge_h empty_tu = Inr bridge_unit \<and>
   distinct (macro_names bridge_unit) \<and>
   distinct (map decl_name (decls bridge_unit))"
proof -
  have bridge: "include_times (Suc n) LibUSBBridge_h s = LibUSBBridge_h s" for s
    by (rule include_again) (rule bridge_stable)
  have shim: "include_times (Suc n) (shim_h has_include) s = shim_h has_include s"
    by (rule include_again) (rule shim_stable)
  have macros: "distinct (macro_names bridge_unit)"
    by (simp add: bridge_macro_names)
  have names: "distinct (map decl_name (decls bridge_unit))"
    by (simp add: bridge_unit_def LibUSBBridge_h_def directive_defs empty_tu_def)
  from bridge [of s] bridge [of empty_tu] shim macros names show ?thesis
    by (simp add: bridge_compiles)
qed

end
